theory Spec2Isabelle
  imports Complex_Main "HOL-Library.Sublist" "HOL-Library.Code_Target_Numeral"
begin

section \<open>Strings\<close>

text \<open>
  A JavaScript string is modelled as a \<^typ>\<open>string\<close> whose characters are the code units
  below 256 (Latin-1). On that range \<open>toLowerCase\<close> shifts \<open>A\<close>..\<open>Z\<close> and the accented
  capitals \<open>0xC0\<close>..\<open>0xDE\<close> (except the multiplication sign \<open>0xD7\<close>) by 32, and the white
  space of \<open>trim\<close> and of the regular expression class \<open>\s\<close> is TAB, LF, VT, FF, CR, SP
  and NBSP.
\<close>

definition lowerChar :: "char \<Rightarrow> char" where
  "lowerChar c =
     (let n = (of_char c :: nat)
      in if (65 \<le> n \<and> n \<le> 90) \<or> (192 \<le> n \<and> n \<le> 222 \<and> n \<noteq> 215)
         then char_of (n + 32) else c)"

definition toLowerCase :: "string \<Rightarrow> string" where
  "toLowerCase s = map lowerChar s"

definition isWhiteSpace :: "char \<Rightarrow> bool" where
  "isWhiteSpace c = ((of_char c :: nat) \<in> {9, 10, 11, 12, 13, 32, 160})"

definition trim :: "string \<Rightarrow> string" where
  "trim s = rev (dropWhile isWhiteSpace (rev (dropWhile isWhiteSpace s)))"

text \<open>\<open>s.includes(t)\<close>: \<open>t\<close> occurs in \<open>s\<close> as a contiguous run.\<close>

definition includes_str :: "string \<Rightarrow> string \<Rightarrow> bool" where
  "includes_str s t = sublist t s"

text \<open>\<open>s.startsWith('/')\<close>.\<close>

definition startsWithSlash :: "string \<Rightarrow> bool" where
  "startsWithSlash s = (case s of [] \<Rightarrow> False | c # _ \<Rightarrow> c = CHR ''/'')"

text \<open>
  \<open>s.split(/\s+/)\<close>: the pieces between the maximal runs of white space, an empty piece
  included where the string starts or ends with white space. \<open>cur\<close> is the piece being
  read, reversed; \<open>inGap\<close> tells that the previous character was white space.
\<close>

fun splitGo :: "string \<Rightarrow> bool \<Rightarrow> string \<Rightarrow> string list" where
  "splitGo cur inGap [] = [rev cur]"
| "splitGo cur inGap (c # cs) =
     (if isWhiteSpace c then (if inGap then splitGo [] True cs else rev cur # splitGo [] True cs)
      else splitGo (c # cur) False cs)"

definition splitWhitespace :: "string \<Rightarrow> string list" where
  "splitWhitespace s = splitGo [] False s"

text \<open>
  \<open>xs.sort(cmp)\<close>. The sort of an array is stable, and on a comparator that is a total
  preorder its result does not depend on the algorithm; the model inserts each element, from
  the right, before the first element it does not compare greater than.
\<close>

fun insertSorted :: "('a \<Rightarrow> 'a \<Rightarrow> int) \<Rightarrow> 'a \<Rightarrow> 'a list \<Rightarrow> 'a list" where
  "insertSorted cmp x [] = [x]"
| "insertSorted cmp x (y # ys) =
     (if cmp x y \<le> 0 then x # y # ys else y # insertSorted cmp x ys)"

definition sortArray :: "('a \<Rightarrow> 'a \<Rightarrow> int) \<Rightarrow> 'a list \<Rightarrow> 'a list" where
  "sortArray cmp xs = foldr (insertSorted cmp) xs []"

section \<open>Numbers\<close>

text \<open>
  A JavaScript number is an IEEE 754 binary64 value: not-a-number, the two infinities, the
  negative zero, or a finite rational (\<open>Fin 0\<close> is the positive zero). Every arithmetic
  operation computes the exact result and rounds it to the nearest binary64 value, ties to
  the even significand (\<open>fl64\<close>).
\<close>

datatype jsnum = NaN | PosInf | NegInf | NegZero | Fin rat

definition pow2 :: "int \<Rightarrow> rat" where
  "pow2 e = (if 0 \<le> e then 2 ^ nat e else 1 / 2 ^ nat (- e))"

definition pow10 :: "int \<Rightarrow> rat" where
  "pow10 e = (if 0 \<le> e then 10 ^ nat e else 1 / 10 ^ nat (- e))"

text \<open>The number of digits of \<open>n\<close> in base \<open>b\<close> (0 for 0).\<close>

fun digitCount :: "nat \<Rightarrow> nat \<Rightarrow> nat" where
  "digitCount b n = (if n = 0 \<or> b < 2 then 0 else Suc (digitCount b (n div b)))"

declare digitCount.simps [simp del]

text \<open>\<open>ilog b a\<close> is the integer \<open>e\<close> with \<open>b^e \<le> a < b^(e+1)\<close>, for \<open>0 < a\<close>.\<close>

definition ilog :: "nat \<Rightarrow> rat \<Rightarrow> int" where
  "ilog b a =
     (if 1 \<le> a then int (digitCount b (nat \<lfloor>a\<rfloor>)) - 1
      else - int (digitCount b (nat (\<lceil>1 / a\<rceil> - 1))))"

definition roundTiesToEven :: "rat \<Rightarrow> int" where
  "roundTiesToEven q =
     (let f = \<lfloor>q\<rfloor>; d = q - of_int f
      in if d < 1 / 2 then f else if 1 / 2 < d then f + 1 else if even f then f else f + 1)"

definition roundMagnitude :: "rat \<Rightarrow> rat option" where
  "roundMagnitude a =
     (let e = max (ilog 2 a) (- 1022);
          ulp = pow2 (e - 52);
          m = of_int (roundTiesToEven (a / ulp)) * ulp
      in if pow2 1024 \<le> m then None else Some m)"

definition fl64 :: "rat \<Rightarrow> jsnum" where
  "fl64 r =
     (if r = 0 then Fin 0
      else if 0 < r then (case roundMagnitude r of None \<Rightarrow> PosInf | Some m \<Rightarrow> Fin m)
      else (case roundMagnitude (- r) of None \<Rightarrow> NegInf
            | Some m \<Rightarrow> if m = 0 then NegZero else Fin (- m)))"

fun isNaN :: "jsnum \<Rightarrow> bool" where
  "isNaN NaN = True"
| "isNaN _ = False"

fun isInfinite :: "jsnum \<Rightarrow> bool" where
  "isInfinite PosInf = True"
| "isInfinite NegInf = True"
| "isInfinite _ = False"

fun signBit :: "jsnum \<Rightarrow> bool" where
  "signBit NegInf = True"
| "signBit NegZero = True"
| "signBit (Fin r) = (r < 0)"
| "signBit _ = False"

text \<open>The real value of a finite number (0 for the others).\<close>

fun mathValue :: "jsnum \<Rightarrow> rat" where
  "mathValue (Fin r) = r"
| "mathValue _ = 0"

definition isZero :: "jsnum \<Rightarrow> bool" where
  "isZero x = (x = NegZero \<or> x = Fin 0)"

definition signedZero :: "bool \<Rightarrow> jsnum" where
  "signedZero neg = (if neg then NegZero else Fin 0)"

definition signedInf :: "bool \<Rightarrow> jsnum" where
  "signedInf neg = (if neg then NegInf else PosInf)"

fun js_neg :: "jsnum \<Rightarrow> jsnum" where
  "js_neg NaN = NaN"
| "js_neg PosInf = NegInf"
| "js_neg NegInf = PosInf"
| "js_neg NegZero = Fin 0"
| "js_neg (Fin r) = (if r = 0 then NegZero else Fin (- r))"

definition js_add :: "jsnum \<Rightarrow> jsnum \<Rightarrow> jsnum" where
  "js_add x y =
     (if isNaN x \<or> isNaN y then NaN
      else if isInfinite x then (if isInfinite y \<and> x \<noteq> y then NaN else x)
      else if isInfinite y then y
      else if isZero x \<and> isZero y then signedZero (signBit x \<and> signBit y)
      else fl64 (mathValue x + mathValue y))"

definition js_sub :: "jsnum \<Rightarrow> jsnum \<Rightarrow> jsnum" where
  "js_sub x y = js_add x (js_neg y)"

definition js_mul :: "jsnum \<Rightarrow> jsnum \<Rightarrow> jsnum" where
  "js_mul x y =
     (let neg = (signBit x \<noteq> signBit y)
      in if isNaN x \<or> isNaN y then NaN
         else if isInfinite x \<or> isInfinite y
           then (if isZero x \<or> isZero y then NaN else signedInf neg)
         else if isZero x \<or> isZero y then signedZero neg
         else fl64 (mathValue x * mathValue y))"

definition js_div :: "jsnum \<Rightarrow> jsnum \<Rightarrow> jsnum" where
  "js_div x y =
     (let neg = (signBit x \<noteq> signBit y)
      in if isNaN x \<or> isNaN y then NaN
         else if isInfinite x then (if isInfinite y then NaN else signedInf neg)
         else if isInfinite y then signedZero neg
         else if isZero y then (if isZero x then NaN else signedInf neg)
         else if isZero x then signedZero neg
         else fl64 (mathValue x / mathValue y))"

text \<open>\<open>x > y\<close> on numbers: false when either side is \<open>NaN\<close>.\<close>

definition js_gt :: "jsnum \<Rightarrow> jsnum \<Rightarrow> bool" where
  "js_gt x y =
     (if isNaN x \<or> isNaN y then False
      else if x = NegInf \<or> y = PosInf then False
      else if x = PosInf \<or> y = NegInf then True
      else mathValue y < mathValue x)"

fun js_abs :: "jsnum \<Rightarrow> jsnum" where
  "js_abs NaN = NaN"
| "js_abs PosInf = PosInf"
| "js_abs NegInf = PosInf"
| "js_abs NegZero = Fin 0"
| "js_abs (Fin r) = Fin \<bar>r\<bar>"

subsection \<open>Numbers to strings\<close>

definition digitChar :: "nat \<Rightarrow> char" where
  "digitChar d = char_of (48 + d)"

fun decimalDigits :: "nat \<Rightarrow> string" where
  "decimalDigits n =
     (if n < 10 then [digitChar n] else decimalDigits (n div 10) @ [digitChar (n mod 10)])"

declare decimalDigits.simps [simp del]

text \<open>
  \<open>Number::toString\<close> picks the shortest digit string \<open>s\<close> (of \<open>k\<close> digits) and the exponent
  \<open>n\<close> with \<open>s * 10^(n-k)\<close> rounding to the number. \<open>digitCandidate a k\<close> tries \<open>k\<close> digits:
  the two \<open>k\<close>-digit decimals around \<open>a\<close>, the nearer one first (the even one on a tie).
\<close>

definition digitCandidate :: "rat \<Rightarrow> nat \<Rightarrow> (nat \<times> int) option" where
  "digitCandidate a k =
     (let n = ilog 10 a + 1;
          scale = pow10 (n - int k);
          lo = \<lfloor>a / scale\<rfloor>;
          hi = lo + 1;
          okLo = (fl64 (of_int lo * scale) = Fin a);
          okHi = (fl64 (of_int hi * scale) = Fin a);
          dLo = a - of_int lo * scale;
          dHi = of_int hi * scale - a;
          preferLo = (dLo < dHi \<or> (dLo = dHi \<and> even lo));
          pick = (\<lambda>s. if s = 10 ^ k then Some (nat (s div 10), n + 1) else Some (nat s, n))
      in if okLo \<and> (preferLo \<or> \<not> okHi) then pick lo
         else if okHi then pick hi
         else None)"

fun shortestDigits :: "rat \<Rightarrow> nat list \<Rightarrow> nat \<times> int" where
  "shortestDigits a [] = (let n = ilog 10 a + 1 in (nat \<lfloor>a / pow10 (n - 17)\<rfloor>, n))"
| "shortestDigits a (k # ks) =
     (case digitCandidate a k of Some r \<Rightarrow> r | None \<Rightarrow> shortestDigits a ks)"

definition formatDigits :: "string \<Rightarrow> int \<Rightarrow> string" where
  "formatDigits ds n =
     (let k = int (length ds)
      in if k \<le> n \<and> n \<le> 21 then ds @ replicate (nat (n - k)) CHR ''0''
         else if 0 < n \<and> n \<le> 21 then take (nat n) ds @ ''.'' @ drop (nat n) ds
         else if - 6 < n \<and> n \<le> 0 then ''0.'' @ replicate (nat (- n)) CHR ''0'' @ ds
         else (if k = 1 then ds else take 1 ds @ ''.'' @ drop 1 ds) @ ''e''
              @ (if n - 1 < 0 then ''-'' else ''+'') @ decimalDigits (nat \<bar>n - 1\<bar>))"

definition positiveToString :: "rat \<Rightarrow> string" where
  "positiveToString a =
     (case shortestDigits a [1 ..< 18] of (s, n) \<Rightarrow> formatDigits (decimalDigits s) n)"

fun numberToString :: "jsnum \<Rightarrow> string" where
  "numberToString NaN = ''NaN''"
| "numberToString PosInf = ''Infinity''"
| "numberToString NegInf = ''-Infinity''"
| "numberToString NegZero = ''0''"
| "numberToString (Fin r) =
     (if r = 0 then ''0'' else if r < 0 then ''-'' @ positiveToString (- r)
      else positiveToString r)"

text \<open>\<open>x.toFixed(f)\<close> for \<open>0 \<le> f \<le> 100\<close>.\<close>

definition toFixed :: "jsnum \<Rightarrow> nat \<Rightarrow> string" where
  "toFixed x f =
     (if isNaN x \<or> isInfinite x then numberToString x
      else let r = mathValue x; a = \<bar>r\<bar>; s = (if r < 0 then ''-'' else '''')
           in if 10 ^ 21 \<le> a then s @ numberToString (Fin a)
              else let n = nat \<lfloor>a * 10 ^ f + 1 / 2\<rfloor>;
                       m0 = decimalDigits n;
                       m = replicate (f + 1 - length m0) CHR ''0'' @ m0;
                       k = length m
                   in s @ (if f = 0 then m else take (k - f) m @ ''.'' @ drop (k - f) m))"

subsection \<open>Strings to numbers\<close>

definition isDigit :: "char \<Rightarrow> bool" where
  "isDigit c = (48 \<le> (of_char c :: nat) \<and> (of_char c :: nat) \<le> 57)"

definition digitValue :: "char \<Rightarrow> nat" where
  "digitValue c =
     (let n = (of_char c :: nat)
      in if 48 \<le> n \<and> n \<le> 57 then n - 48
         else if 97 \<le> n \<and> n \<le> 102 then n - 87
         else if 65 \<le> n \<and> n \<le> 70 then n - 55
         else 36)"

definition parseDigits :: "nat \<Rightarrow> string \<Rightarrow> nat option" where
  "parseDigits b s =
     (if s \<noteq> [] \<and> list_all (\<lambda>c. digitValue c < b) s
      then Some (foldl (\<lambda>acc c. acc * b + digitValue c) 0 s) else None)"

definition parseExponent :: "string \<Rightarrow> int option" where
  "parseExponent s =
     (case s of [] \<Rightarrow> Some 0
      | c # t \<Rightarrow>
          if c = CHR ''e'' \<or> c = CHR ''E'' then
            (case t of
               [] \<Rightarrow> None
             | d # u \<Rightarrow>
                 if d = CHR ''-'' then map_option (\<lambda>n. - int n) (parseDigits 10 u)
                 else if d = CHR ''+'' then map_option int (parseDigits 10 u)
                 else map_option int (parseDigits 10 t))
          else None)"

definition parseUnsignedDecimal :: "string \<Rightarrow> rat option" where
  "parseUnsignedDecimal s =
     (let ip = takeWhile isDigit s;
          r1 = dropWhile isDigit s;
          hasDot = (case r1 of [] \<Rightarrow> False | c # _ \<Rightarrow> c = CHR ''.'');
          fp = (if hasDot then takeWhile isDigit (tl r1) else []);
          r2 = (if hasDot then dropWhile isDigit (tl r1) else r1)
      in if ip = [] \<and> fp = [] then None
         else case parseExponent r2 of
                None \<Rightarrow> None
              | Some e \<Rightarrow>
                  Some (of_nat (foldl (\<lambda>acc c. acc * 10 + digitValue c) 0 (ip @ fp))
                        * pow10 (e - int (length fp))))"

definition stringToNumber :: "string \<Rightarrow> jsnum" where
  "stringToNumber str =
     (let t = trim str;
          p = toLowerCase (take 2 t);
          neg = (take 1 t = ''-'');
          body = (if take 1 t = ''-'' \<or> take 1 t = ''+'' then drop 1 t else t)
      in if t = [] then Fin 0
         else if p = ''0x'' \<or> p = ''0o'' \<or> p = ''0b'' then
           (case parseDigits (if p = ''0x'' then 16 else if p = ''0o'' then 8 else 2) (drop 2 t) of
              None \<Rightarrow> NaN | Some n \<Rightarrow> fl64 (of_nat n))
         else if body = ''Infinity'' then signedInf neg
         else case parseUnsignedDecimal body of
                None \<Rightarrow> NaN
              | Some v \<Rightarrow> if v = 0 then signedZero neg else fl64 (if neg then - v else v))"

section \<open>Data model\<close>

record datapoint =
  name :: string
  revenue :: jsnum
  customers :: jsnum
  products :: jsnum

text \<open>
  \<open>generateInsights\<close> is handed an object whose summary has only the two fields it reads;
  the summary of a result extends it with \<open>totalRevenue\<close>.
\<close>

record growthSummary =
  totalCustomers :: jsnum
  averageGrowth :: string

record summary = growthSummary +
  totalRevenue :: jsnum

record results =
  data :: "datapoint list"
  summary :: summary
  insights :: "string list"

record queryItem =
  query :: string
  timestamp :: string
  results :: results

record state =
  queries :: "queryItem list"
  currentQuery :: string
  currentResults :: "results option"
  isProcessing :: bool
  error :: "string option"
  suggestionMode :: bool

datatype action =
    SET_CURRENT_QUERY string
  | SUBMIT_QUERY
  | PROCESS_QUERY_SUCCESS results
  | PROCESS_QUERY_FAILURE string
  | CLEAR_HISTORY
  | OTHER string

section \<open>The reducer\<close>

text \<open>
  \<open>queryReducer now state action\<close>; \<open>now\<close> is what \<open>new Date().toLocaleString()\<close> returns
  when the reducer runs. \<open>OTHER\<close> stands for any action type the \<open>switch\<close> does not list.
\<close>

fun queryReducer :: "string \<Rightarrow> state \<Rightarrow> action \<Rightarrow> state" where
  "queryReducer now st (SET_CURRENT_QUERY payload) =
     st\<lparr>currentQuery := payload, suggestionMode := startsWithSlash payload, error := None\<rparr>"
| "queryReducer now st SUBMIT_QUERY =
     st\<lparr>isProcessing := True, error := None\<rparr>"
| "queryReducer now st (PROCESS_QUERY_SUCCESS payload) =
     st\<lparr>isProcessing := False,
        queries := queries st @ [\<lparr>query = currentQuery st, timestamp = now, results = payload\<rparr>],
        currentResults := Some payload,
        currentQuery := [],
        error := None\<rparr>"
| "queryReducer now st (PROCESS_QUERY_FAILURE payload) =
     st\<lparr>isProcessing := False, error := Some payload, currentResults := None\<rparr>"
| "queryReducer now st CLEAR_HISTORY =
     st\<lparr>queries := [], currentResults := None, error := None\<rparr>"
| "queryReducer now st (OTHER ty) = st"

definition initialState :: state where
  "initialState =
     \<lparr>queries = [], currentQuery = [], currentResults = None, isProcessing = False,
      error = None, suggestionMode = False\<rparr>"

text \<open>The state after a sequence of actions, each with the clock reading of its dispatch.\<close>

definition dispatchAll :: "state \<Rightarrow> (string \<times> action) list \<Rightarrow> state" where
  "dispatchAll st acts = foldl (\<lambda>s (now, a). queryReducer now s a) st acts"

section \<open>Suggestion and command tables\<close>

definition AI_SUGGESTIONS :: "string list" where
  "AI_SUGGESTIONS =
     [''Top performing products this quarter'',
      ''Sales conversion rate by channel'',
      ''Market share analysis in key regions'',
      ''Operational efficiency metrics'',
      ''Seasonal trends impact on business'',
      ''Monthly revenue breakdown by product category'',
      ''Year-over-year revenue growth analysis'',
      ''Revenue forecast for next quarter'',
      ''Impact of pricing changes on revenue'',
      ''Revenue attribution by marketing channel'',
      ''Customer lifetime value analysis'',
      ''Customer segmentation by spending patterns'',
      ''Churn rate analysis for premium customers'',
      ''New vs returning customer revenue'',
      ''Customer acquisition cost trends'',
      ''Sales performance by region'',
      ''Customer retention rates'',
      ''Product revenue trends'',
      ''Marketing campaign effectiveness'',
      ''Quarterly financial overview'',
      ''Competitive market analysis'']"

text \<open>\<open>Object.entries(COMMAND_SHORTCUTS)\<close>: the pairs in the order the object lists its keys.\<close>

definition COMMAND_SHORTCUTS :: "(string \<times> string) list" where
  "COMMAND_SHORTCUTS =
     [(''/revenue'', ''Detailed revenue breakdown''),
      (''/customers'', ''Comprehensive customer metrics''),
      (''/top-products'', ''Ranking of top-performing products''),
      (''/regional-performance'', ''Comparative regional performance analysis''),
      (''/forecast'', ''Revenue and growth prediction'')]"

section \<open>Growth rate\<close>

text \<open>
  The argument of \<open>calculateGrowthRate\<close> is \<open>None\<close> for \<open>null\<close> or \<open>undefined\<close>, and an
  array may hold \<open>null\<close> entries (\<open>None\<close>): reading \<open>revenue\<close> of one throws a \<open>TypeError\<close>,
  which the \<open>catch\<close> turns into \<open>'Unavailable'\<close>. Arithmetic on numbers never throws.
  \<open>growthTryBlock\<close> is the body of the \<open>try\<close>; it runs on arrays of two or more entries
  only, where \<open>hd\<close> and \<open>last\<close> are \<open>data[0]\<close> and \<open>data[data.length - 1]\<close>.
\<close>

datatype jsError = TypeError

definition growthTryBlock :: "datapoint option list \<Rightarrow> jsError + string" where
  "growthTryBlock rows =
     (case hd rows of
        None \<Rightarrow> Inl TypeError
      | Some firstRow \<Rightarrow>
          (case last rows of
             None \<Rightarrow> Inl TypeError
           | Some lastRow \<Rightarrow>
               (let firstValue = revenue firstRow; lastValue = revenue lastRow
                in Inr (toFixed
                     (js_mul (js_div (js_sub lastValue firstValue) firstValue) (Fin 100)) 2))))"

definition calculateGrowthRate :: "datapoint option list option \<Rightarrow> string" where
  "calculateGrowthRate dataArg =
     (case dataArg of
        None \<Rightarrow> ''N/A''
      | Some rows \<Rightarrow>
          if length rows < 2 then ''N/A''
          else (case growthTryBlock rows of Inl err \<Rightarrow> ''Unavailable'' | Inr s \<Rightarrow> s))"

section \<open>Insights\<close>

text \<open>
  The rules, in the order of the source; each is its condition on the query and the insight
  it yields. \<open>averageGrowth\<close> is a string, so \<open>> 0\<close> and \<open>Math.abs\<close> convert it to a number
  first, and the template literal converts the absolute value back to a string.
\<close>

definition insightRules :: "'a growthSummary_scheme \<Rightarrow> ((string \<Rightarrow> bool) \<times> string) list" where
  "insightRules sm =
     [(\<lambda>q. includes_str q ''revenue'',
       ''Revenue ''
         @ (if js_gt (stringToNumber (averageGrowth sm)) (Fin 0)
            then ''increased'' else ''decreased'')
         @ '' by '' @ numberToString (js_abs (stringToNumber (averageGrowth sm))) @ ''%''),
      (\<lambda>q. includes_str q ''customer'',
       ''Customer base shows ''
         @ (if js_gt (totalCustomers sm) (Fin 1500) then ''strong'' else ''moderate'')
         @ '' growth''),
      (\<lambda>q. includes_str q ''product'',
       ''Product portfolio demonstrates consistent performance'')]"

definition generateInsights :: "string \<Rightarrow> 'a growthSummary_scheme \<Rightarrow> string" where
  "generateInsights q sm =
     (case find (\<lambda>rule. fst rule q) (insightRules sm) of
        Some matchedInsight \<Rightarrow> snd matchedInsight
      | None \<Rightarrow> ''General performance remains stable'')"

section \<open>Suggestions\<close>

text \<open>
  What \<open>handleQueryChange\<close> hands to \<open>setSuggestions\<close>: entries of the command table, or
  phrases.
\<close>

datatype suggestionItem = CommandEntry string string | PhraseEntry string

record scoredSuggestion =
  suggestion :: string
  score :: int

definition queryKeywords :: "string \<Rightarrow> string list" where
  "queryKeywords v = filter (\<lambda>word. 2 < length word) (splitWhitespace (toLowerCase v))"

definition scoreSuggestion :: "string \<Rightarrow> string list \<Rightarrow> string \<Rightarrow> scoredSuggestion" where
  "scoreSuggestion v keywords sg =
     (let suggestionLower = toLowerCase sg;
          base = (if includes_str suggestionLower (toLowerCase v) then 10 else 0)
      in \<lparr>suggestion = sg,
          score = foldl (\<lambda>sc keyword. if includes_str suggestionLower keyword then sc + 5 else sc)
                    base keywords\<rparr>)"

definition matchedCommands :: "string \<Rightarrow> (string \<times> string) list" where
  "matchedCommands v =
     filter (\<lambda>(cmd, desc). includes_str (toLowerCase cmd) (toLowerCase v)) COMMAND_SHORTCUTS"

definition filteredSuggestions :: "string \<Rightarrow> string list" where
  "filteredSuggestions v =
     (let scoredSuggestions = map (scoreSuggestion v (queryKeywords v)) AI_SUGGESTIONS
      in take 7 (map suggestion
           (sortArray (\<lambda>a b. score b - score a)
              (filter (\<lambda>item. 0 < score item) scoredSuggestions))))"

definition computeSuggestions :: "string \<Rightarrow> suggestionItem list" where
  "computeSuggestions v =
     (if startsWithSlash v then map (\<lambda>(cmd, desc). CommandEntry cmd desc) (matchedCommands v)
      else if 0 < length (trim v) then map PhraseEntry (filteredSuggestions v)
      else [])"

text \<open>
  \<open>handleQueryChange now st value\<close>: the session state after its dispatch, and the
  suggestion list it sets.
\<close>

definition handleQueryChange :: "string \<Rightarrow> state \<Rightarrow> string \<Rightarrow> state \<times> suggestionItem list" where
  "handleQueryChange now st v =
     (queryReducer now st (SET_CURRENT_QUERY v), computeSuggestions v)"

section \<open>Mock results\<close>

definition baseData :: "datapoint list" where
  "baseData =
     [\<lparr>name = ''Q1 2023'', revenue = Fin 450000, customers = Fin 1200, products = Fin 50\<rparr>,
      \<lparr>name = ''Q2 2023'', revenue = Fin 520000, customers = Fin 1350, products = Fin 55\<rparr>,
      \<lparr>name = ''Q3 2023'', revenue = Fin 610000, customers = Fin 1500, products = Fin 60\<rparr>,
      \<lparr>name = ''Q4 2023'', revenue = Fin 680000, customers = Fin 1650, products = Fin 65\<rparr>]"

definition generateMockResults :: "string \<Rightarrow> results" where
  "generateMockResults q =
     \<lparr>data = baseData,
      summary =
        \<lparr>totalCustomers = foldl (\<lambda>sum item. js_add sum (customers item)) (Fin 0) baseData,
         averageGrowth = calculateGrowthRate (Some (map Some baseData)),
         totalRevenue = foldl (\<lambda>sum item. js_add sum (revenue item)) (Fin 0) baseData\<rparr>,
      insights =
        [generateInsights q
           \<lparr>totalCustomers = foldl (\<lambda>sum item. js_add sum (customers item)) (Fin 0) baseData,
            averageGrowth = calculateGrowthRate (Some (map Some baseData))\<rparr>]\<rparr>"

section \<open>Submitting and rerunning\<close>

text \<open>
  \<open>handleQuerySubmit now st\<close>: the session state after the dispatch the handler makes before
  it returns, and the payload of the \<open>PROCESS_QUERY_SUCCESS\<close> it schedules for 500 ms later
  (\<open>None\<close> when it schedules nothing). \<open>generateMockResults\<close> throws for no query
  string, so the \<open>catch\<close> branch of the handler is never taken and has no counterpart here.
\<close>

definition handleQuerySubmit :: "string \<Rightarrow> state \<Rightarrow> state \<times> results option" where
  "handleQuerySubmit now st =
     (if trim (currentQuery st) = []
      then (queryReducer now st (PROCESS_QUERY_FAILURE ''Query cannot be empty''), None)
      else (queryReducer now st SUBMIT_QUERY, Some (generateMockResults (currentQuery st))))"

text \<open>The scheduled callback, run at clock reading \<open>now\<close> on the state of that moment.\<close>

definition timeoutFires :: "string \<Rightarrow> state \<Rightarrow> results \<Rightarrow> state" where
  "timeoutFires now st mockResults = queryReducer now st (PROCESS_QUERY_SUCCESS mockResults)"

text \<open>The click handler of the Rerun button of a history entry.\<close>

definition rerun :: "string \<Rightarrow> state \<Rightarrow> queryItem \<Rightarrow> state" where
  "rerun now st queryItem = queryReducer now st (PROCESS_QUERY_SUCCESS (results queryItem))"

section \<open>The suggestion scorer as specified\<close>

text \<open>
  The words of a string: its maximal runs of characters that are not white space.
\<close>

function specWords :: "string \<Rightarrow> string list" where
  "specWords s =
     (case dropWhile isWhiteSpace s of
        [] \<Rightarrow> []
      | c # cs \<Rightarrow> (c # takeWhile (\<lambda>d. \<not> isWhiteSpace d) cs)
                  # specWords (dropWhile (\<lambda>d. \<not> isWhiteSpace d) cs))"
  by pat_completeness auto
termination
proof (relation "measure length")
  fix s :: string and c cs
  assume "dropWhile isWhiteSpace s = c # cs"
  then have "length (c # cs) \<le> length s"
    by (metis length_dropWhile_le)
  moreover have "length (dropWhile (\<lambda>d. \<not> isWhiteSpace d) cs) \<le> length cs"
    by (rule length_dropWhile_le)
  ultimately show "(dropWhile (\<lambda>d. \<not> isWhiteSpace d) cs, s) \<in> measure length"
    by simp
qed simp

declare specWords.simps [simp del]

text \<open>The keywords of a query: the words of its lower-case form that are longer than 2.\<close>

definition specKeywords :: "string \<Rightarrow> string list" where
  "specKeywords v = filter (\<lambda>w. 2 < length w) (specWords (toLowerCase v))"

text \<open>
  10 if the lower-case phrase contains the whole lower-case query, plus 5 for each keyword
  it contains.
\<close>

definition specScore :: "string \<Rightarrow> string \<Rightarrow> int" where
  "specScore v phrase =
     (if includes_str (toLowerCase phrase) (toLowerCase v) then 10 else 0)
     + 5 * int (length (filter (\<lambda>keyword. includes_str (toLowerCase phrase) keyword)
                          (specKeywords v)))"

text \<open>
  The phrases of non-zero score, by descending score; \<^const>\<open>sort_key\<close> is a stable sort,
  so phrases of equal score keep their order in the list.
\<close>

definition specRanked :: "string \<Rightarrow> string list" where
  "specRanked v =
     sort_key (\<lambda>phrase. - specScore v phrase)
       (filter (\<lambda>phrase. specScore v phrase \<noteq> 0) AI_SUGGESTIONS)"

text \<open>
  Command mode keeps the table entries whose token contains the query, in table order.
  Free-text mode keeps the first 7 of the ranked phrases. An empty or all-white-space query
  has no suggestions.
\<close>

definition specSuggestions :: "string \<Rightarrow> suggestionItem list" where
  "specSuggestions v =
     (if startsWithSlash v
      then map (\<lambda>(cmd, desc). CommandEntry cmd desc)
             (filter (\<lambda>(cmd, desc). includes_str (toLowerCase cmd) (toLowerCase v))
                COMMAND_SHORTCUTS)
      else if trim v \<noteq> [] then map PhraseEntry (take 7 (specRanked v))
      else [])"

section \<open>Example sessions\<close>

text \<open>The command \<open>/revenue\<close> typed, submitted and answered.\<close>

definition sessionAfterRevenue :: state where
  "sessionAfterRevenue =
     dispatchAll initialState
       [(''10:00:00'', SET_CURRENT_QUERY ''/revenue''),
        (''10:00:01'', SUBMIT_QUERY),
        (''10:00:02'', PROCESS_QUERY_SUCCESS (generateMockResults ''/revenue''))]"

text \<open>Then three spaces typed into the input.\<close>

definition blankSession :: state where
  "blankSession = fst (handleQueryChange ''10:00:05'' sessionAfterRevenue ''   '')"

text \<open>
  A query edited while its submission is pending: \<open>revenue\<close> is typed and submitted,
  \<open>customer churn\<close> is typed before the 500 ms have passed, then the timeout fires.
\<close>

definition typedSession :: state where
  "typedSession = fst (handleQueryChange ''10:00:00'' initialState ''revenue'')"

definition pendingSubmit :: "state \<times> results option" where
  "pendingSubmit = handleQuerySubmit ''10:00:01'' typedSession"

definition editedSession :: state where
  "editedSession = fst (handleQueryChange ''10:00:01'' (fst pendingSubmit) ''customer churn'')"

definition resolvedSession :: state where
  "resolvedSession =
     (case snd pendingSubmit of
        None \<Rightarrow> editedSession
      | Some mockResults \<Rightarrow> timeoutFires ''10:00:02'' editedSession mockResults)"

text \<open>A dataset whose first row has no revenue.\<close>

definition zeroFirstData :: "datapoint option list" where
  "zeroFirstData =
     [Some \<lparr>name = ''Q1 2023'', revenue = Fin 0, customers = Fin 1200, products = Fin 50\<rparr>,
      Some \<lparr>name = ''Q2 2023'', revenue = Fin 520000, customers = Fin 1350, products = Fin 55\<rparr>]"

section \<open>Evaluating the model on literals\<close>

text \<open>
  The simplifier evaluates the definitions above on numerals and string literals, given
  the floor of a quotient of numerals, the bits of a character code, and the recursive
  digit functions unfolded at numerals only.
\<close>

lemma floor_rat_numeral_div [simp]:
  "\<lfloor>numeral a / numeral b :: rat\<rfloor> = numeral a div numeral b"
  by (metis floor_divide_of_int_eq of_int_numeral)

lemma floor_rat_one_div [simp]:
  "\<lfloor>1 / numeral b :: rat\<rfloor> = 1 div numeral b"
  by (metis floor_divide_of_int_eq of_int_1 of_int_numeral)

lemma ceiling_rat_numeral_div [simp]:
  "\<lceil>numeral a / numeral b :: rat\<rceil> = - (- numeral a div numeral b)"
  using ceiling_divide_eq_div[of "numeral a" "numeral b", where ?'a = rat] by simp

lemma char_of_nat_eval:
  "char_of (n::nat) = Char (odd n) (odd (n div 2)) (odd (n div 4)) (odd (n div 8))
     (odd (n div 16)) (odd (n div 32)) (odd (n div 64)) (odd (n div 128))"
  by (simp add: char_of_def bit_iff_odd)

lemma digitCount_eval:
  "digitCount b 0 = 0"
  "digitCount b (Suc 0) = (if b < 2 then 0 else 1)"
  "digitCount b (numeral k) = (if b < 2 then 0 else Suc (digitCount b (numeral k div b)))"
  by (simp_all add: digitCount.simps[of b 0] digitCount.simps[of b "Suc 0"]
        digitCount.simps[of b "numeral k"])

lemma decimalDigits_eval:
  "decimalDigits 0 = ''0''"
  "decimalDigits (Suc 0) = ''1''"
  "decimalDigits (numeral k) =
     (if numeral k < (10::nat) then [digitChar (numeral k)]
      else decimalDigits (numeral k div 10) @ [digitChar (numeral k mod 10)])"
  by (simp_all add: decimalDigits.simps[of 0] decimalDigits.simps[of "Suc 0"]
        decimalDigits.simps[of "numeral k"] digitChar_def char_of_nat_eval)

lemma upt_18:
  "[Suc 0 ..< 18] = [1, 2, 3, 4, 5, 6, 7, 8, 9, 10, 11, 12, 13, 14, 15, 16, 17 :: nat]"
  by (simp add: upt_rec)

lemmas num_eval = fl64_def roundMagnitude_def ilog_def digitCount_eval pow2_def pow10_def
  roundTiesToEven_def Let_def js_add_def js_sub_def js_mul_def js_div_def isZero_def
  signedZero_def signedInf_def js_gt_def

lemmas digits_eval = decimalDigits_eval digitChar_def char_of_nat_eval

lemmas includes_eval = includes_str_def sublist_code(3) toLowerCase_def lowerChar_def
  char_of_nat_eval

section \<open>Properties of the number model\<close>

text \<open>
  \<open>digitCount b n\<close> is the number of base-\<open>b\<close> digits of \<open>n\<close>, so \<open>ilog\<close> brackets its
  argument between two consecutive powers of the base.
\<close>

lemma digitCount_bounds:
  "2 \<le> b \<Longrightarrow> 0 < n \<Longrightarrow> b ^ (digitCount b n - 1) \<le> n \<and> n < b ^ digitCount b n"
proof (induction b n rule: digitCount.induct)
  case (1 b n)
  show ?case
  proof (cases "n div b = 0")
    case True
    with 1 have "n < b" by (simp add: div_eq_0_iff)
    moreover from True 1 have "digitCount b n = 1"
      by (simp add: digitCount.simps[of b n] digitCount.simps[of b 0])
    ultimately show ?thesis using 1 by simp
  next
    case False
    with 1 have IH: "b ^ (digitCount b (n div b) - 1) \<le> n div b"
      "n div b < b ^ digitCount b (n div b)" by simp_all
    from 1 have dc: "digitCount b n = Suc (digitCount b (n div b))"
      by (simp add: digitCount.simps[of b n])
    from False 1 have pos: "0 < digitCount b (n div b)"
      by (simp add: digitCount.simps[of b "n div b"])
    have "b ^ digitCount b (n div b) = b * b ^ (digitCount b (n div b) - 1)"
      using pos by (cases "digitCount b (n div b)") simp_all
    also have "\<dots> \<le> b * (n div b)" using IH(1) by simp
    also have "\<dots> \<le> n" by simp
    finally have lower: "b ^ digitCount b (n div b) \<le> n" .
    have "n mod b < b" using 1(2) by simp
    moreover have "n = b * (n div b) + n mod b" by simp
    ultimately have "n < b * (n div b) + b" by linarith
    also have "\<dots> = b * (n div b + 1)" by simp
    also have "\<dots> \<le> b * b ^ digitCount b (n div b)"
      using IH(2) by (intro mult_le_mono2) simp
    finally have "n < b ^ Suc (digitCount b (n div b))" by simp
    with lower dc show ?thesis by simp
  qed
qed

lemma digitCount_pos: "2 \<le> b \<Longrightarrow> 0 < n \<Longrightarrow> 0 < digitCount b n"
  by (simp add: digitCount.simps[of b n])

lemma ilog_ge_one:
  assumes "2 \<le> b" and "1 \<le> a"
  shows "0 \<le> ilog b a"
    and "of_nat b ^ nat (ilog b a) \<le> a"
    and "a < of_nat b ^ nat (ilog b a + 1)"
proof -
  define n where "n = nat \<lfloor>a\<rfloor>"
  define k where "k = digitCount b n"
  from assms(2) have fl: "1 \<le> \<lfloor>a\<rfloor>" by simp
  then have n: "0 < n" and nn: "int n = \<lfloor>a\<rfloor>" by (simp_all add: n_def)
  from digitCount_bounds[OF assms(1) n] digitCount_pos[OF assms(1) n]
  have lo: "b ^ (k - 1) \<le> n" and hi: "n < b ^ k" and k: "0 < k" by (simp_all add: k_def)
  have il: "ilog b a = int k - 1" using assms(2) by (simp add: ilog_def k_def n_def)
  show "0 \<le> ilog b a" using il k by simp
  have "(of_nat (b ^ (k - 1)) :: rat) \<le> of_nat n" using lo by (simp only: of_nat_le_iff)
  also have "(of_nat n :: rat) = of_int \<lfloor>a\<rfloor>" using nn by (metis of_int_of_nat_eq)
  also have "\<dots> \<le> a" by simp
  finally show "of_nat b ^ nat (ilog b a) \<le> a" using il k by (simp add: nat_diff_distrib)
  have "a < of_int \<lfloor>a\<rfloor> + 1" by linarith
  also have "(of_int \<lfloor>a\<rfloor> :: rat) + 1 = of_nat (n + 1)" using nn by (metis of_int_of_nat_eq of_nat_Suc Suc_eq_plus1 add.commute)
  also have "\<dots> \<le> of_nat (b ^ k)" using hi by (simp only: of_nat_le_iff)
  finally show "a < of_nat b ^ nat (ilog b a + 1)" using il by simp
qed

lemma ilog_lt_one:
  assumes "2 \<le> b" and "0 < a" and "a < 1"
  shows "ilog b a < 0"
    and "1 / of_nat b ^ nat (- ilog b a) \<le> a"
    and "a < 1 / of_nat b ^ (nat (- ilog b a) - 1)"
proof -
  define m where "m = \<lceil>1 / a\<rceil>"
  define j where "j = nat (m - 1)"
  define k where "k = digitCount b j"
  from assms have inv: "1 < 1 / a" by simp
  then have m2: "2 \<le> m" unfolding m_def by linarith
  then have j: "0 < j" and jj: "int j = m - 1" by (simp_all add: j_def)
  from digitCount_bounds[OF assms(1) j] digitCount_pos[OF assms(1) j]
  have lo: "b ^ (k - 1) \<le> j" and hi: "j < b ^ k" and k: "0 < k" by (simp_all add: k_def)
  have il: "ilog b a = - int k" using assms(3) by (simp add: ilog_def k_def j_def m_def)
  show "ilog b a < 0" using il k by simp
  have bpos: "(0::rat) < of_nat b ^ k" using assms(1) by simp
  have "1 / a \<le> of_int m" unfolding m_def by linarith
  also have "(of_int m :: rat) = of_nat (j + 1)" using jj by (metis add.commute add_diff_cancel_left' of_int_of_nat_eq of_nat_Suc Suc_eq_plus1 diff_add_cancel of_int_add of_int_1)
  also have "\<dots> \<le> of_nat (b ^ k)" using hi by (simp only: of_nat_le_iff)
  finally have "1 / a \<le> of_nat b ^ k" by simp
  then have "1 / of_nat b ^ k \<le> a"
    using assms(2) bpos by (simp add: field_simps)
  then show "1 / of_nat b ^ nat (- ilog b a) \<le> a" using il by simp
  have bpos': "(0::rat) < of_nat b ^ (k - 1)" using assms(1) by simp
  have "(of_nat (b ^ (k - 1)) :: rat) \<le> of_nat j" using lo by (simp only: of_nat_le_iff)
  also have "(of_nat j :: rat) = of_int m - 1" using jj by (metis of_int_of_nat_eq of_int_diff of_int_1)
  also have "\<dots> < 1 / a" unfolding m_def by linarith
  finally have "of_nat b ^ (k - 1) < 1 / a" by simp
  then have "a < 1 / of_nat b ^ (k - 1)"
    using assms(2) bpos' by (simp add: field_simps)
  then show "a < 1 / of_nat b ^ (nat (- ilog b a) - 1)" using il by simp
qed

text \<open>\<open>ilog 2\<close> is the binary exponent: \<open>2^e \<le> a < 2^(e+1)\<close>.\<close>

lemma ilog2_bounds:
  assumes "0 < a"
  shows "pow2 (ilog 2 a) \<le> a \<and> a < pow2 (ilog 2 a + 1)"
proof (cases "1 \<le> a")
  case True
  from ilog_ge_one[of 2 a] True show ?thesis by (simp add: pow2_def)
next
  case False
  then have lt: "a < 1" by simp
  from ilog_lt_one[of 2 a] assms lt
  have neg: "ilog 2 a < 0" and lo: "1 / 2 ^ nat (- ilog 2 a) \<le> a"
    and hi: "a < 1 / 2 ^ (nat (- ilog 2 a) - 1)" by simp_all
  have "nat (- (ilog 2 a + 1)) = nat (- ilog 2 a) - 1" by simp
  with neg lo hi show ?thesis
    by (cases "ilog 2 a = - 1") (simp_all add: pow2_def)
qed

lemma roundTiesToEven_int: "roundTiesToEven (of_int z) = z"
  by (simp add: roundTiesToEven_def)

lemma roundTiesToEven_near: "\<bar>of_int (roundTiesToEven q) - q\<bar> \<le> 1 / 2"
proof -
  have "of_int \<lfloor>q\<rfloor> \<le> q" "q < of_int \<lfloor>q\<rfloor> + 1" by linarith+
  then show ?thesis by (auto simp: roundTiesToEven_def Let_def)
qed

lemma roundMagnitude_int:
  assumes "0 < z" and "z < 2 ^ 53"
  shows "roundMagnitude (of_int z) = Some (of_int z)"
proof -
  define a :: rat where "a = of_int z"
  define e where "e = ilog 2 a"
  define p where "p = nat (52 - e)"
  have a1: "1 \<le> a" using assms(1) by (simp add: a_def)
  from ilog_ge_one[of 2 a] a1 have e0: "0 \<le> e" and lo: "2 ^ nat e \<le> a"
    by (simp_all add: e_def)
  have "a < 2 ^ 53" using assms(2) unfolding a_def
    by (metis of_int_less_iff of_int_numeral of_int_power)
  with lo have below: "(2::rat) ^ nat e < 2 ^ 53" by simp
  have "(1::rat) < 2" by simp
  from power_less_imp_less_exp[OF this below] have "nat e < 53" .
  then have e52: "e \<le> 52" by simp
  have ulp: "pow2 (e - 52) = 1 / 2 ^ p"
    using e52 by (cases "e = 52") (simp_all add: pow2_def p_def)
  have quot: "a / pow2 (e - 52) = of_int (z * 2 ^ p)"
    by (simp add: ulp a_def)
  have unscale: "of_int (z * 2 ^ p) * pow2 (e - 52) = a"
    by (simp add: ulp a_def)
  have "a < pow2 1024"
    using \<open>a < 2 ^ 53\<close> by (simp add: pow2_def)
  moreover have "max e (- 1022) = e" using e0 by simp
  ultimately show ?thesis
    unfolding roundMagnitude_def a_def[symmetric] e_def[symmetric] Let_def
    by (simp only: quot roundTiesToEven_int unscale) simp
qed

text \<open>Integers below \<open>2^53\<close> in magnitude are binary64 values: rounding leaves them.\<close>

lemma fl64_int: "\<bar>z\<bar> < 2 ^ 53 \<Longrightarrow> fl64 (of_int z) = Fin (of_int z)"
proof (cases "z = 0")
  case True
  then show ?thesis by (simp add: fl64_def)
next
  case False
  assume small: "\<bar>z\<bar> < 2 ^ 53"
  show ?thesis
  proof (cases "0 < z")
    case True
    with small roundMagnitude_int[of z] show ?thesis by (simp add: fl64_def)
  next
    case neg: False
    with False small have "0 < - z" "- z < 2 ^ 53" by simp_all
    from roundMagnitude_int[OF this] have "roundMagnitude (- of_int z) = Some (- of_int z)"
      by simp
    with neg False show ?thesis by (simp add: fl64_def)
  qed
qed

text \<open>
  Three known values: the binary64 value of one tenth, a tie that goes to the even
  significand, and \<open>(1.005).toFixed(2)\<close>, whose binary64 value lies below the decimal.
\<close>

lemma fl64_tenth: "fl64 (1 / 10) = Fin (3602879701896397 / 36028797018963968)"
  by (simp add: num_eval)

lemma fl64_tie_to_even: "fl64 9007199254740993 = Fin 9007199254740992"
  by (simp add: num_eval)

lemma toFixed_below_half: "toFixed (fl64 (1005 / 1000)) 2 = ''1.00''"
  by (simp add: num_eval toFixed_def digits_eval)

section \<open>Strings\<close>

lemma dropWhile_white_Nil:
  "dropWhile isWhiteSpace s = [] \<longleftrightarrow> list_all isWhiteSpace s"
  by (simp add: dropWhile_eq_Nil_conv list_all_iff)

text \<open>A string trims to the empty string exactly when it is empty or all white space.\<close>

lemma trim_empty_iff: "trim s = [] \<longleftrightarrow> list_all isWhiteSpace s"
proof
  assume "list_all isWhiteSpace s"
  then have "dropWhile isWhiteSpace s = []" by (simp only: dropWhile_white_Nil)
  then show "trim s = []" by (simp only: trim_def dropWhile.simps(1) rev.simps(1))
next
  assume "trim s = []"
  then have all: "\<forall>x \<in> set (dropWhile isWhiteSpace s). isWhiteSpace x"
    by (simp add: trim_def dropWhile_eq_Nil_conv)
  have "dropWhile isWhiteSpace s = []"
  proof (cases "dropWhile isWhiteSpace s")
    case (Cons y ys)
    then have "\<not> isWhiteSpace y" by (metis hd_dropWhile list.sel(1) list.distinct(1))
    with all Cons show ?thesis by simp
  qed simp
  then show "list_all isWhiteSpace s" by (simp only: dropWhile_white_Nil)
qed

subsection \<open>Splitting at white space yields the words\<close>

lemma specWords_Nil: "specWords [] = []"
  by (simp add: specWords.simps)

lemma specWords_white: "isWhiteSpace c \<Longrightarrow> specWords (c # cs) = specWords cs"
  by (simp add: specWords.simps[of "c # cs"] specWords.simps[of cs])

lemma specWords_word:
  assumes "\<forall>d \<in> set u. \<not> isWhiteSpace d" and "u \<noteq> []"
  shows "specWords (u @ s) =
           (case s of [] \<Rightarrow> [u]
            | c # cs \<Rightarrow> if isWhiteSpace c then u # specWords s else specWords (u @ s))"
proof -
  from assms obtain a w where u: "u = a # w" by (cases u) auto
  with assms have a: "\<not> isWhiteSpace a" and w: "\<forall>d \<in> set w. \<not> isWhiteSpace d" by auto
  show ?thesis
  proof (cases s)
    case Nil
    from w have tw: "takeWhile (\<lambda>d. \<not> isWhiteSpace d) w = w"
      and dw: "dropWhile (\<lambda>d. \<not> isWhiteSpace d) w = []" by auto
    show ?thesis using Nil u a
      by (simp add: specWords.simps[of "a # w"] tw dw specWords_Nil)
  next
    case (Cons c cs)
    show ?thesis
    proof (cases "isWhiteSpace c")
      case False
      then show ?thesis using Cons by simp
    next
      case True
      have "takeWhile (\<lambda>d. \<not> isWhiteSpace d) (w @ c # cs) = w"
        using w True by (simp add: takeWhile_append2)
      moreover have "dropWhile (\<lambda>d. \<not> isWhiteSpace d) (w @ c # cs) = c # cs"
        using w True by (simp add: dropWhile_append2)
      ultimately show ?thesis using Cons True u a
        by (simp add: specWords.simps[of "a # w @ c # cs"])
    qed
  qed
qed

lemma splitGo_specWords:
  "\<forall>d \<in> set cur. \<not> isWhiteSpace d \<Longrightarrow> (inGap \<longrightarrow> cur = []) \<Longrightarrow>
     filter (\<lambda>w. w \<noteq> []) (splitGo cur inGap s) = specWords (rev cur @ s)"
proof (induction s arbitrary: cur inGap)
  case Nil
  then show ?case
    using specWords_word[of "rev cur" "[]"] by (cases "cur = []") (simp_all add: specWords_Nil)
next
  case (Cons c cs)
  show ?case
  proof (cases "isWhiteSpace c")
    case white: True
    have rest: "filter (\<lambda>w. w \<noteq> []) (splitGo [] True cs) = specWords cs"
      using Cons.IH[of "[]" True] by simp
    show ?thesis
    proof (cases "cur = []")
      case True
      with white rest show ?thesis by (simp add: specWords_white)
    next
      case False
      with Cons.prems have "\<not> inGap" by simp
      moreover have "specWords (rev cur @ c # cs) = rev cur # specWords (c # cs)"
        using specWords_word[of "rev cur" "c # cs"] Cons.prems(1) False white by simp
      ultimately show ?thesis using white rest False by (simp add: specWords_white)
    qed
  next
    case False
    with Cons.prems(1) have "\<forall>d \<in> set (c # cur). \<not> isWhiteSpace d" by simp
    from Cons.IH[OF this, of False] False show ?thesis by simp
  qed
qed

lemma queryKeywords_spec: "queryKeywords v = specKeywords v"
proof -
  have "filter (\<lambda>w. 2 < length w) (splitWhitespace (toLowerCase v))
          = filter (\<lambda>w. 2 < length w) (filter (\<lambda>w. w \<noteq> []) (splitWhitespace (toLowerCase v)))"
    by (simp add: conj_commute) (rule filter_cong, auto)
  also have "filter (\<lambda>w. w \<noteq> []) (splitWhitespace (toLowerCase v)) = specWords (toLowerCase v)"
    using splitGo_specWords[of "[]" False "toLowerCase v"] by (simp add: splitWhitespace_def)
  finally show ?thesis by (simp add: queryKeywords_def specKeywords_def)
qed

section \<open>Session state machine\<close>

lemma sessionAfterRevenue_eq:
  "sessionAfterRevenue =
     \<lparr>queries = [\<lparr>query = ''/revenue'', timestamp = ''10:00:02'',
                   results = generateMockResults ''/revenue''\<rparr>],
      currentQuery = [], currentResults = Some (generateMockResults ''/revenue''),
      isProcessing = False, error = None, suggestionMode = True\<rparr>"
  by (simp add: sessionAfterRevenue_def dispatchAll_def initialState_def startsWithSlash_def)

lemma blankSession_eq:
  "blankSession =
     sessionAfterRevenue\<lparr>currentQuery := ''   '', suggestionMode := False, error := None\<rparr>"
  by (simp add: blankSession_def handleQueryChange_def startsWithSlash_def)

lemma dispatchAll_snoc:
  "dispatchAll st (acts @ [(now, a)]) = queryReducer now (dispatchAll st acts) a"
  by (simp add: dispatchAll_def)

text \<open>
  One half of the relation between the flag and the text holds in every state reached from
  the initial one: a text that starts with \<open>/\<close> has the flag set.
\<close>

lemma reachable_slash_implies_mode:
  "startsWithSlash (currentQuery (dispatchAll initialState acts))
     \<longrightarrow> suggestionMode (dispatchAll initialState acts)"
proof (induction acts rule: rev_induct)
  case Nil
  show ?case by (simp add: dispatchAll_def initialState_def startsWithSlash_def)
next
  case (snoc x acts)
  obtain now a where x: "x = (now, a)" by (cases x)
  from snoc show ?case unfolding x dispatchAll_snoc
    by (cases a) (simp_all add: startsWithSlash_def)
qed

text \<open>
  When the timeout fires on the state the submission left, the new record has the
  submitted text.
\<close>

lemma record_text_without_edit:
  "snd (handleQuerySubmit now st) = Some mockResults \<Longrightarrow>
     query (last (queries (timeoutFires now' (fst (handleQuerySubmit now st)) mockResults)))
       = currentQuery st"
  by (simp add: handleQuerySubmit_def timeoutFires_def split: if_splits)

text \<open>
  C9. For every state, the \<open>CLEAR_HISTORY\<close> transition empties the history and resets the
  current result and the error, and leaves the current query text and the processing flag
  exactly as they were.
\<close>

theorem clearHistory_frame:
  "queries (queryReducer now st CLEAR_HISTORY) = [] \<and>
   currentResults (queryReducer now st CLEAR_HISTORY) = None \<and>
   error (queryReducer now st CLEAR_HISTORY) = None \<and>
   currentQuery (queryReducer now st CLEAR_HISTORY) = currentQuery st \<and>
   isProcessing (queryReducer now st CLEAR_HISTORY) = isProcessing st"
  by simp

text \<open>
  C1, as stated, fails: the Rerun button dispatches \<open>PROCESS_QUERY_SUCCESS\<close>, and that
  transition appends. Rerunning the one record of the history of \<open>sessionAfterRevenue\<close>
  leaves a history different from the one before.
\<close>

theorem rerun_changes_history:
  "hd (queries sessionAfterRevenue) \<in> set (queries sessionAfterRevenue) \<and>
   queries (rerun ''10:00:09'' sessionAfterRevenue (hd (queries sessionAfterRevenue)))
     \<noteq> queries sessionAfterRevenue"
  by (simp add: sessionAfterRevenue_eq rerun_def)

text \<open>
  C1, amended. For every state and every history record, \<open>rerun\<close> sets the current result
  to the stored result of the record, without computing a result anew, and takes the
  success transition: the history is the one before followed by exactly one new record,
  which carries that stored result.
\<close>

theorem rerun_appends_stored_result:
  "currentResults (rerun now st item) = Some (results item) \<and>
   queries (rerun now st item) = queries st @ [last (queries (rerun now st item))] \<and>
   results (last (queries (rerun now st item))) = results item"
  by (simp add: rerun_def)

text \<open>
  C4. The invariant "\<open>suggestionMode\<close> holds exactly when the current query text starts with
  \<open>/\<close>" is broken by the success transition, which empties the text and leaves the flag:
  after \<open>/revenue\<close> is set, submitted and answered, the text is empty and the flag is still
  set.
\<close>

theorem suggestionMode_stale_after_success:
  "currentQuery sessionAfterRevenue = [] \<and>
   suggestionMode sessionAfterRevenue = True \<and>
   startsWithSlash (currentQuery sessionAfterRevenue) = False"
  by (simp add: sessionAfterRevenue_eq startsWithSlash_def)

text \<open>
  C5. The record appended on success takes its text from the state in which the timeout
  fires, not from the submission: \<open>revenue\<close> was the text when the query was submitted and
  is the query the result was computed for, and the record reads \<open>customer churn\<close>.
\<close>

theorem record_text_read_at_resolution:
  "currentQuery typedSession = ''revenue'' \<and>
   snd pendingSubmit = Some (generateMockResults ''revenue'') \<and>
   queries resolvedSession =
     [\<lparr>query = ''customer churn'', timestamp = ''10:00:02'',
       results = generateMockResults ''revenue''\<rparr>]"
  by (simp add: resolvedSession_def editedSession_def pendingSubmit_def typedSession_def
        handleQuerySubmit_def handleQueryChange_def timeoutFires_def initialState_def
        trim_def isWhiteSpace_def)

text \<open>
  C8. For every state whose current query text is empty or all white space, a submission
  leaves \<open>isProcessing\<close> false, sets the error to \<open>Query cannot be empty\<close>, and schedules
  no result: the synthesizer is not run.
\<close>

theorem blank_submit_rejected:
  "list_all isWhiteSpace (currentQuery st) \<Longrightarrow>
     isProcessing (fst (handleQuerySubmit now st)) = False \<and>
     error (fst (handleQuerySubmit now st)) = Some ''Query cannot be empty'' \<and>
     snd (handleQuerySubmit now st) = None"
  by (simp add: handleQuerySubmit_def trim_empty_iff)

theorem blank_submit_rejected_witness:
  "list_all isWhiteSpace (currentQuery (queryReducer ''10:00:06'' blankSession SUBMIT_QUERY)) \<and>
   isProcessing (queryReducer ''10:00:06'' blankSession SUBMIT_QUERY) = True \<and>
   isProcessing (fst (handleQuerySubmit ''10:00:07''
       (queryReducer ''10:00:06'' blankSession SUBMIT_QUERY))) = False \<and>
   error (fst (handleQuerySubmit ''10:00:07''
       (queryReducer ''10:00:06'' blankSession SUBMIT_QUERY))) = Some ''Query cannot be empty'' \<and>
   snd (handleQuerySubmit ''10:00:07''
       (queryReducer ''10:00:06'' blankSession SUBMIT_QUERY)) = None"
  using blank_submit_rejected
    [of "queryReducer ''10:00:06'' blankSession SUBMIT_QUERY" "''10:00:07''"]
  by (simp add: blankSession_eq isWhiteSpace_def)

text \<open>
  C10. A submission of an empty or all-white-space text takes the failure transition, the
  one a synthesizer fault takes, and that transition sets the current result to null
  whatever its message: a blank submission clears the displayed result.
\<close>

theorem blank_submit_clears_result:
  "list_all isWhiteSpace (currentQuery st) \<Longrightarrow>
     fst (handleQuerySubmit now st)
       = queryReducer now st (PROCESS_QUERY_FAILURE ''Query cannot be empty'') \<and>
     currentResults (fst (handleQuerySubmit now st)) = None \<and>
     currentResults (queryReducer now st (PROCESS_QUERY_FAILURE msg)) = None"
  by (simp add: handleQuerySubmit_def trim_empty_iff)

theorem blank_submit_clears_result_witness:
  "list_all isWhiteSpace (currentQuery blankSession) \<and>
   currentResults blankSession = Some (generateMockResults ''/revenue'') \<and>
   fst (handleQuerySubmit ''10:00:07'' blankSession)
     = queryReducer ''10:00:07'' blankSession (PROCESS_QUERY_FAILURE ''Query cannot be empty'') \<and>
   currentResults (fst (handleQuerySubmit ''10:00:07'' blankSession)) = None"
  using blank_submit_clears_result [of blankSession "''10:00:07''"]
  by (simp add: blankSession_eq sessionAfterRevenue_eq isWhiteSpace_def)

section \<open>Growth rate\<close>

lemma growthRate_null: "calculateGrowthRate None = ''N/A''"
  by (simp add: calculateGrowthRate_def)

lemma growthRate_short: "length rows < 2 \<Longrightarrow> calculateGrowthRate (Some rows) = ''N/A''"
  by (simp add: calculateGrowthRate_def)

lemma growthRate_rows:
  "2 \<le> length rows \<Longrightarrow> hd rows = Some firstRow \<Longrightarrow> last rows = Some lastRow \<Longrightarrow>
     calculateGrowthRate (Some rows) =
       toFixed (js_mul (js_div (js_sub (revenue lastRow) (revenue firstRow))
                  (revenue firstRow)) (Fin 100)) 2"
  by (simp add: calculateGrowthRate_def growthTryBlock_def Let_def)

lemma js_div_zero_divisor:
  assumes "isZero y"
  shows "js_div x y \<in> {NaN, PosInf, NegInf}"
proof -
  have "js_div x NegZero \<in> {NaN, PosInf, NegInf}"
    by (cases x) (simp_all add: js_div_def isZero_def signedInf_def)
  moreover have "js_div x (Fin 0) \<in> {NaN, PosInf, NegInf}"
    by (cases x) (simp_all add: js_div_def isZero_def signedInf_def)
  ultimately show ?thesis using assms by (auto simp: isZero_def)
qed

lemma js_mul_nonfinite:
  "x \<in> {NaN, PosInf, NegInf} \<Longrightarrow> js_mul x (Fin 100) \<in> {NaN, PosInf, NegInf}"
  by (cases x) (simp_all add: js_mul_def isZero_def signedInf_def)

lemma toFixed_nonfinite:
  "x \<in> {NaN, PosInf, NegInf} \<Longrightarrow> toFixed x f \<in> {''NaN'', ''Infinity'', ''-Infinity''}"
  by (cases x) (simp_all add: toFixed_def)

text \<open>
  A division by a zero does not throw: whenever the first revenue is a zero, the growth rate
  is one of the strings of a value that is not finite, never \<open>Unavailable\<close>.
\<close>

lemma growthRate_zero_divisor:
  assumes "2 \<le> length rows" and "hd rows = Some firstRow" and "last rows = Some lastRow"
    and "isZero (revenue firstRow)"
  shows "calculateGrowthRate (Some rows) \<in> {''NaN'', ''Infinity'', ''-Infinity''}"
proof -
  have "js_mul (js_div (js_sub (revenue lastRow) (revenue firstRow)) (revenue firstRow)) (Fin 100)
          \<in> {NaN, PosInf, NegInf}"
    using assms(4) by (intro js_mul_nonfinite js_div_zero_divisor)
  then have "toFixed (js_mul (js_div (js_sub (revenue lastRow) (revenue firstRow))
                 (revenue firstRow)) (Fin 100)) 2 \<in> {''NaN'', ''Infinity'', ''-Infinity''}"
    by (rule toFixed_nonfinite)
  then show ?thesis using assms(1-3) by (simp only: growthRate_rows)
qed

text \<open>
  C2. The growth rate of a dataset whose first revenue is 0 is not \<open>Unavailable\<close>: for the
  two rows of \<open>zeroFirstData\<close>, with revenues 0 and 520000, it is \<open>Infinity\<close>.
\<close>

theorem growthRate_zero_first_revenue:
  "calculateGrowthRate (Some zeroFirstData) = ''Infinity''"
  by (simp add: zeroFirstData_def calculateGrowthRate_def growthTryBlock_def num_eval toFixed_def)

section \<open>Insights\<close>

text \<open>The rules are tried in order, on the query as it was typed.\<close>

lemma generateInsights_cases:
  "generateInsights q sm =
     (if includes_str q ''revenue'' then
        ''Revenue ''
          @ (if js_gt (stringToNumber (averageGrowth sm)) (Fin 0)
             then ''increased'' else ''decreased'')
          @ '' by '' @ numberToString (js_abs (stringToNumber (averageGrowth sm))) @ ''%''
      else if includes_str q ''customer'' then
        ''Customer base shows ''
          @ (if js_gt (totalCustomers sm) (Fin 1500) then ''strong'' else ''moderate'')
          @ '' growth''
      else if includes_str q ''product'' then
        ''Product portfolio demonstrates consistent performance''
      else ''General performance remains stable'')"
  by (simp add: generateInsights_def insightRules_def)

lemma capitalised_query_contains:
  "includes_str (toLowerCase ''Revenue forecast for next quarter'') ''revenue''"
  by (simp add: includes_eval)

lemma capitalised_query_misses:
  "\<not> includes_str ''Revenue forecast for next quarter'' ''revenue''"
  "\<not> includes_str ''Revenue forecast for next quarter'' ''customer''"
  "\<not> includes_str ''Revenue forecast for next quarter'' ''product''"
  by (simp_all add: includes_eval)

text \<open>
  C3. The rules match the query as typed, not its lower-case form. The query
  \<open>Revenue forecast for next quarter\<close>, a phrase of the suggestion list, contains \<open>revenue\<close>
  when case is ignored, and its insight is the fallback sentence.
\<close>

theorem insight_match_is_case_sensitive:
  "includes_str (toLowerCase ''Revenue forecast for next quarter'') ''revenue'' \<and>
   insights (generateMockResults ''Revenue forecast for next quarter'')
     = [''General performance remains stable'']"
  by (simp add: generateMockResults_def generateInsights_cases capitalised_query_contains
        capitalised_query_misses)

section \<open>Mock results\<close>

lemma totalRevenue_baseData:
  "foldl (\<lambda>sum item. js_add sum (revenue item)) (Fin 0) baseData = Fin 2260000"
  by (simp add: baseData_def num_eval)

lemma totalCustomers_baseData:
  "foldl (\<lambda>sum item. js_add sum (customers item)) (Fin 0) baseData = Fin 5700"
  by (simp add: baseData_def num_eval)

lemma growth_quotient:
  "js_div (js_sub (Fin 680000) (Fin 450000)) (Fin 450000)
     = Fin (287729976193115 / 562949953421312)"
  by (simp add: num_eval)

lemma growth_percent:
  "js_mul (Fin (287729976193115 / 562949953421312)) (Fin 100)
     = Fin (7193249404827875 / 140737488355328)"
  by (simp add: num_eval)

lemma growth_toFixed:
  "toFixed (Fin (7193249404827875 / 140737488355328)) 2 = ''51.11''"
  by (simp add: toFixed_def digits_eval)

lemma growthRate_baseData: "calculateGrowthRate (Some (map Some baseData)) = ''51.11''"
  by (simp add: calculateGrowthRate_def growthTryBlock_def baseData_def
        growth_quotient growth_percent growth_toFixed)

text \<open>
  C6. For every query, the synthesizer returns the four rows Q1 to Q4 of 2023, the totals
  2260000 and 5700, the growth rate \<open>51.11\<close>, and exactly one insight.
\<close>

theorem generateMockResults_fixed:
  "data (generateMockResults q) =
     [\<lparr>name = ''Q1 2023'', revenue = Fin 450000, customers = Fin 1200, products = Fin 50\<rparr>,
      \<lparr>name = ''Q2 2023'', revenue = Fin 520000, customers = Fin 1350, products = Fin 55\<rparr>,
      \<lparr>name = ''Q3 2023'', revenue = Fin 610000, customers = Fin 1500, products = Fin 60\<rparr>,
      \<lparr>name = ''Q4 2023'', revenue = Fin 680000, customers = Fin 1650, products = Fin 65\<rparr>] \<and>
   totalRevenue (summary (generateMockResults q)) = Fin 2260000 \<and>
   totalCustomers (summary (generateMockResults q)) = Fin 5700 \<and>
   averageGrowth (summary (generateMockResults q)) = ''51.11'' \<and>
   length (insights (generateMockResults q)) = 1"
  by (simp add: generateMockResults_def totalRevenue_baseData totalCustomers_baseData
        growthRate_baseData) (simp add: baseData_def)

subsection \<open>The insight scenarios\<close>

lemma parse_growth: "stringToNumber ''51.11'' = Fin (3596546514920407 / 70368744177664)"
  by (simp add: stringToNumber_def trim_def isWhiteSpace_def toLowerCase_def lowerChar_def
        parseUnsignedDecimal_def isDigit_def parseExponent_def digitValue_def num_eval)

lemma digits_growth:
  "shortestDigits (3596546514920407 / 70368744177664) [Suc 0 ..< 18] = (5111, 2)"
  by (simp add: upt_18 digitCandidate_def num_eval)

lemma print_growth: "positiveToString (3596546514920407 / 70368744177664) = ''51.11''"
  by (simp add: positiveToString_def digits_growth formatDigits_def digits_eval)

lemma insight_revenue_scenario:
  "insights (generateMockResults ''Top revenue drivers'') = [''Revenue increased by 51.11%'']"
proof -
  have "includes_str ''Top revenue drivers'' ''revenue''"
    by (simp add: includes_eval)
  moreover have "js_gt (Fin (3596546514920407 / 70368744177664)) (Fin 0)"
    by (simp add: js_gt_def)
  ultimately show ?thesis
    by (simp add: generateMockResults_def generateInsights_cases growthRate_baseData
          parse_growth print_growth)
qed

lemma insight_customer_scenario:
  "insights (generateMockResults ''customer churn'') = [''Customer base shows strong growth'']"
proof -
  have "\<not> includes_str ''customer churn'' ''revenue''" "includes_str ''customer churn'' ''customer''"
    by (simp_all add: includes_eval)
  moreover have "js_gt (Fin 5700) (Fin 1500)"
    by (simp add: js_gt_def)
  ultimately show ?thesis
    by (simp add: generateMockResults_def generateInsights_cases totalCustomers_baseData)
qed

section \<open>Suggestions\<close>

lemma foldl_keyword_score:
  "foldl (\<lambda>sc keyword. if P keyword then sc + 5 else sc) (base :: int) kws
     = base + 5 * int (length (filter P kws))"
  by (induction kws arbitrary: base) simp_all

lemma scoreSuggestion_spec:
  "scoreSuggestion v (queryKeywords v) p = \<lparr>suggestion = p, score = specScore v p\<rparr>"
  by (simp add: scoreSuggestion_def specScore_def foldl_keyword_score queryKeywords_spec Let_def)

lemma insertSorted_insort:
  "insertSorted (\<lambda>a b. score b - score a) x ys = insort_key (\<lambda>a. - score a) x ys"
  by (induction ys) simp_all

lemma sortArray_sort_key:
  "sortArray (\<lambda>a b. score b - score a) xs = sort_key (\<lambda>a. - score a) xs"
  by (induction xs) (simp_all add: sortArray_def insertSorted_insort)

lemma insort_key_image:
  "insort_key f (h x) (map h ys) = map h (insort_key (\<lambda>y. f (h y)) x ys)"
  by (induction ys) simp_all

lemma sort_key_image: "sort_key f (map h xs) = map h (sort_key (\<lambda>y. f (h y)) xs)"
  by (induction xs) (simp_all add: insort_key_image)

lemma specScore_nonneg: "0 \<le> specScore v p"
  by (simp add: specScore_def)

text \<open>The ranking is what its description says: a descending, stable arrangement.\<close>

lemma specRanked_set:
  "set (specRanked v) = {phrase \<in> set AI_SUGGESTIONS. specScore v phrase \<noteq> 0}"
  by (simp add: specRanked_def)

lemma specRanked_descending:
  "sorted_wrt (\<lambda>p q. specScore v q \<le> specScore v p) (specRanked v)"
proof -
  have "sorted (map (\<lambda>phrase. - specScore v phrase) (specRanked v))"
    unfolding specRanked_def by (rule sorted_sort_key)
  then show ?thesis by (simp add: sorted_map)
qed

lemma specRanked_stable:
  "filter (\<lambda>phrase. specScore v phrase = k) (specRanked v)
     = filter (\<lambda>phrase. specScore v phrase = k)
         (filter (\<lambda>phrase. specScore v phrase \<noteq> 0) AI_SUGGESTIONS)"
proof -
  have "filter (\<lambda>phrase. - specScore v phrase = - k) (specRanked v)
          = filter (\<lambda>phrase. - specScore v phrase = - k)
              (filter (\<lambda>phrase. specScore v phrase \<noteq> 0) AI_SUGGESTIONS)"
    unfolding specRanked_def by (rule sort_key_stable)
  then show ?thesis by simp
qed

lemma filteredSuggestions_spec: "filteredSuggestions v = take 7 (specRanked v)"
proof -
  let ?h = "\<lambda>p. \<lparr>suggestion = p, score = specScore v p\<rparr>"
  have pos: "(\<lambda>p. 0 < specScore v p) = (\<lambda>p. specScore v p \<noteq> 0)"
    using specScore_nonneg[of v] by (auto simp: fun_eq_iff less_le)
  have scored: "map (scoreSuggestion v (queryKeywords v)) AI_SUGGESTIONS = map ?h AI_SUGGESTIONS"
    by (simp add: scoreSuggestion_spec)
  have kept: "filter (\<lambda>item. 0 < score item) (map ?h AI_SUGGESTIONS)
                = map ?h (filter (\<lambda>p. specScore v p \<noteq> 0) AI_SUGGESTIONS)"
    by (simp add: filter_map o_def pos)
  have ordered: "map suggestion (sort_key (\<lambda>a. - score a) (map ?h xs))
                  = sort_key (\<lambda>p. - specScore v p) xs" for xs
    by (simp add: sort_key_image o_def)
  show ?thesis
    by (simp only: filteredSuggestions_def Let_def sortArray_sort_key scored kept ordered
          specRanked_def)
qed

text \<open>
  C7. For every query, the suggestions computed are the specified ones: in command mode
  the table entries whose lower-case token contains the lower-case query, in table order
  and all of them; otherwise, for a query that does not trim to the empty string, the
  phrases of non-zero score (10 for containing the whole lower-case query, 5 for each
  keyword longer than 2 contained), by descending score, ties in list order, the first 7;
  and none for an empty or all-white-space query.
\<close>

theorem computeSuggestions_spec: "computeSuggestions v = specSuggestions v"
  by (simp add: computeSuggestions_def specSuggestions_def matchedCommands_def
        filteredSuggestions_spec)

text \<open>The scenario of the command prefix \<open>/reven\<close>.\<close>

lemma suggestions_reven:
  "computeSuggestions ''/reven'' = [CommandEntry ''/revenue'' ''Detailed revenue breakdown'']"
  by (simp add: computeSuggestions_def matchedCommands_def COMMAND_SHORTCUTS_def
        startsWithSlash_def includes_eval)

end
